theory Spec2Isabelle
  imports Complex_Main "HOL-Library.Word" "HOL-Library.Multiset"
begin

section \<open>JavaScript values\<close>

text \<open>
  A JavaScript string is a sequence of UTF-16 code units; \<open>length\<close>, \<open>substring\<close> and
  \<open>trim\<close> work on code units. String literals of the source are ASCII and are written
  \<open>js ''...''\<close>.
\<close>

type_synonym code_unit = "16 word"
type_synonym jsstring = "code_unit list"

definition js :: "string \<Rightarrow> jsstring" where
  "js s = map (\<lambda>c. of_nat (of_char c)) s"

text \<open>
  \<open>String.prototype.trim\<close> removes leading and trailing WhiteSpace and LineTerminator
  code points (ECMAScript 22.1.3.32): TAB, LF, VT, FF, CR, SP, NBSP, U+1680,
  U+2000..U+200A, LS, PS, U+202F, U+205F, U+3000 and the byte order mark.
\<close>

definition isWhiteSpace :: "code_unit \<Rightarrow> bool" where
  "isWhiteSpace c \<longleftrightarrow>
     c \<in> set [0x0009, 0x000A, 0x000B, 0x000C, 0x000D, 0x0020, 0x00A0, 0x1680,
               0x2000, 0x2001, 0x2002, 0x2003, 0x2004, 0x2005, 0x2006, 0x2007,
               0x2008, 0x2009, 0x200A, 0x2028, 0x2029, 0x202F, 0x205F, 0x3000, 0xFEFF]"

definition trim :: "jsstring \<Rightarrow> jsstring" where
  "trim s = rev (dropWhile isWhiteSpace (rev (dropWhile isWhiteSpace s)))"

text \<open>
  \<open>s.substring(start, stop)\<close>: both indices are clamped to the length and swapped when
  \<open>start > stop\<close>; the result is the code units from the smaller to the larger index.
\<close>

definition substring :: "jsstring \<Rightarrow> nat \<Rightarrow> nat \<Rightarrow> jsstring" where
  "substring s start stop =
     (let a = min start (length s); b = min stop (length s)
      in take (max a b - min a b) (drop (min a b) s))"

text \<open>
  A JavaScript number, as far as the arithmetic of the source needs it: a finite value
  (rounding is not modelled), the two infinities and NaN. Division by zero does not
  raise: it yields an infinity, and \<open>0 / 0\<close> yields NaN.
\<close>

datatype jsnum = Num real | PosInfinity | NegInfinity | NaN

definition js_div :: "real \<Rightarrow> real \<Rightarrow> jsnum" where
  "js_div a b =
     (if b = 0 then (if a = 0 then NaN else if 0 < a then PosInfinity else NegInfinity)
      else Num (a / b))"

fun js_times :: "jsnum \<Rightarrow> real \<Rightarrow> jsnum" where
  "js_times (Num a) b = Num (a * b)"
| "js_times PosInfinity b = (if b = 0 then NaN else if 0 < b then PosInfinity else NegInfinity)"
| "js_times NegInfinity b = (if b = 0 then NaN else if 0 < b then NegInfinity else PosInfinity)"
| "js_times NaN b = NaN"

text \<open>\<open>Math.max(a, x)\<close> for a finite \<open>a\<close>: NaN when \<open>x\<close> is NaN.\<close>

fun js_max :: "real \<Rightarrow> jsnum \<Rightarrow> jsnum" where
  "js_max a (Num b) = Num (max a b)"
| "js_max a PosInfinity = PosInfinity"
| "js_max a NegInfinity = Num a"
| "js_max a NaN = NaN"

text \<open>
  \<open>Array.prototype.sort(comparefn)\<close> is a stable sort by the comparator (ECMAScript
  2019): an element goes before the first one it does not compare greater than.
\<close>

fun insertBy :: "('a \<Rightarrow> 'a \<Rightarrow> real) \<Rightarrow> 'a \<Rightarrow> 'a list \<Rightarrow> 'a list" where
  "insertBy cmp x [] = [x]"
| "insertBy cmp x (y # ys) = (if cmp x y \<le> 0 then x # y # ys else y # insertBy cmp x ys)"

definition array_sort :: "('a \<Rightarrow> 'a \<Rightarrow> real) \<Rightarrow> 'a list \<Rightarrow> 'a list" where
  "array_sort cmp xs = foldr (insertBy cmp) xs []"

section \<open>HTTP\<close>

text \<open>
  What \<open>await fetch(...)\<close> gives the caller. The promise rejects with a message when the
  transport fails; otherwise a response arrives with a status, the raw body text
  (\<open>response.text()\<close>) and the outcome of reading the payload: \<open>Throws m\<close> when
  \<open>response.json()\<close> rejects on a body that is not JSON or a property of a \<open>null\<close> payload
  is read (an exception with message \<open>m\<close>), \<open>Value v\<close> for the fields the caller reads,
  typed as the component's interface declares them.
\<close>

datatype 'a decoded = Throws jsstring | Value 'a

record 'a response =
  status :: nat
  bodyText :: jsstring
  bodyJson :: "'a decoded"

datatype 'a fetch_outcome = Rejected jsstring | Responded "'a response"

definition ok :: "'a response \<Rightarrow> bool" where
  "ok r \<longleftrightarrow> 200 \<le> status r \<and> status r \<le> 299"

text \<open>
  An event handler that contains one \<open>await fetch\<close> runs in two parts. The first part
  either returns at once or suspends on a request; the second part runs when the
  outcome of that request arrives.
\<close>

datatype ('s, 'q) step = Return 's | Await 'q 's

section \<open>AnalyzePage: upload, then analyze\<close>

record jsfile =
  filename :: jsstring
  bytes :: "8 word list"

record upload_data =
  document_id :: "jsstring option"

record 'a page_state =
  selectedFile :: "jsfile option"
  uploading :: bool
  analyzing :: bool
  result :: "'a option"
  error :: jsstring

datatype page_request = PostUpload jsfile | PostAnalyze jsstring

text \<open>
  The state variable \<open>file\<close> of the page is the field \<open>selectedFile\<close>.
  The backend as the page sees it: the outcome of each of its two requests.
\<close>

record 'a server =
  uploadResponse :: "jsfile \<Rightarrow> upload_data fetch_outcome"
  analyzeResponse :: "jsstring \<Rightarrow> 'a fetch_outcome"

text \<open>The \<open>catch\<close> block: \<open>setError(err.message || 'Something went wrong')\<close> and both flags off.\<close>

definition catchError :: "'a page_state \<Rightarrow> jsstring \<Rightarrow> 'a page_state" where
  "catchError st message =
     st\<lparr>error := (if message = [] then js ''Something went wrong'' else message),
        uploading := False, analyzing := False\<rparr>"

text \<open>The template literal \<open>${uploadData.document_id}\<close>: a missing field prints as \<open>undefined\<close>.\<close>

definition analyzePath :: "upload_data \<Rightarrow> jsstring" where
  "analyzePath uploadData =
     (case document_id uploadData of Some d \<Rightarrow> d | None \<Rightarrow> js ''undefined'')"

text \<open>
  \<open>handleUploadAndAnalyze\<close>, with each \<open>await fetch\<close> answered by the server. The result
  is the final state and the requests issued, in the order they were issued.
\<close>

definition handleUploadAndAnalyze ::
    "'a server \<Rightarrow> 'a page_state \<Rightarrow> 'a page_state \<times> page_request list" where
  "handleUploadAndAnalyze srv st =
     (case selectedFile st of
        None \<Rightarrow> (st\<lparr>error := js ''Please select a file''\<rparr>, [])
      | Some f \<Rightarrow>
          let st1 = st\<lparr>uploading := True, analyzing := True, error := []\<rparr> in
          (case uploadResponse srv f of
             Rejected m \<Rightarrow> (catchError st1 m, [PostUpload f])
           | Responded uploadRes \<Rightarrow>
               if \<not> ok uploadRes then (catchError st1 (js ''Upload failed''), [PostUpload f])
               else
                 (case bodyJson uploadRes of
                    Throws m \<Rightarrow> (catchError st1 m, [PostUpload f])
                  | Value uploadData \<Rightarrow>
                      let st2 = st1\<lparr>uploading := False\<rparr>;
                          d = analyzePath uploadData in
                      (case analyzeResponse srv d of
                         Rejected m \<Rightarrow> (catchError st2 m, [PostUpload f, PostAnalyze d])
                       | Responded analyzeRes \<Rightarrow>
                           if \<not> ok analyzeRes
                           then (catchError st2 (js ''Analysis failed: '' @ bodyText analyzeRes),
                                 [PostUpload f, PostAnalyze d])
                           else
                             (case bodyJson analyzeRes of
                                Throws m \<Rightarrow> (catchError st2 m, [PostUpload f, PostAnalyze d])
                              | Value analyzeData \<Rightarrow>
                                  (st2\<lparr>result := Some analyzeData, analyzing := False\<rparr>,
                                   [PostUpload f, PostAnalyze d]))))))"

section \<open>DocumentComparison and SemanticClauseSearch: similarity bands\<close>

definition getColorForScore :: "real \<Rightarrow> string" where
  "getColorForScore score =
     (if score \<ge> 0.9 then ''from-green-500 to-emerald-600''
      else if score \<ge> 0.75 then ''from-blue-500 to-cyan-600''
      else if score \<ge> 0.6 then ''from-yellow-500 to-orange-500''
      else if score \<ge> 0.4 then ''from-orange-500 to-red-500''
      else ''from-red-500 to-pink-600'')"

definition getSimilarityColor :: "real \<Rightarrow> string" where
  "getSimilarityColor sim =
     (if sim \<ge> 0.9 then ''bg-green-100 border-green-400 text-green-800''
      else if sim \<ge> 0.75 then ''bg-blue-100 border-blue-400 text-blue-800''
      else if sim \<ge> 0.6 then ''bg-yellow-100 border-yellow-400 text-yellow-800''
      else ''bg-gray-100 border-gray-400 text-gray-800'')"

text \<open>
  Modelled from the spec: the label of each band of the comparison view (section 4.3 of
  the specification). The client computes only the colour of a band; the label it
  prints next to it is the \<open>interpretation\<close> field of the server's response, and the
  server is not part of the sources. The legend of DocumentComparison lists the same
  five labels in the same order.
\<close>

definition bandLabel :: "string \<Rightarrow> string" where
  "bandLabel colour =
     (if colour = ''from-green-500 to-emerald-600'' then ''Nearly identical documents''
      else if colour = ''from-blue-500 to-cyan-600'' then ''Very similar structure and content''
      else if colour = ''from-yellow-500 to-orange-500'' then ''Moderately similar, same type''
      else if colour = ''from-orange-500 to-red-500'' then ''Somewhat similar clauses''
      else ''Different documents'')"

section \<open>SemanticClauseSearch\<close>

record clause_match =
  clause :: jsstring
  similarity :: real

record search_result =
  query :: jsstring
  total_clauses :: nat
  matches :: "clause_match list"

record search_state =
  searchQuery :: jsstring
  results :: "search_result option"
  searching :: bool
  search_console :: "jsstring list"

record search_request =
  form_document_id :: jsstring
  form_clause_text :: jsstring

text \<open>
  \<open>handleSearch\<close> up to its \<open>await fetch\<close>. The state variable \<open>loading\<close> of the component
  is the field \<open>searching\<close>.
\<close>

definition handleSearch :: "jsstring \<Rightarrow> search_state \<Rightarrow> (search_state, search_request) step" where
  "handleSearch documentId st =
     (if trim (searchQuery st) = [] then Return st
      else Await \<lparr>form_document_id = documentId, form_clause_text = searchQuery st\<rparr>
                 (st\<lparr>searching := True\<rparr>))"

text \<open>
  \<open>handleSearch\<close> from the point where the fetch settles: \<open>setResults(data)\<close> with the
  parsed payload (\<open>None\<close> is the payload \<open>null\<close>) whatever the status, \<open>console.error\<close> in
  the \<open>catch\<close> block, and \<open>setLoading(false)\<close> in \<open>finally\<close>.
\<close>

definition afterSearch ::
    "search_state \<Rightarrow> search_result option fetch_outcome \<Rightarrow> search_state" where
  "afterSearch st outcome =
     (case outcome of
        Rejected m \<Rightarrow> st\<lparr>search_console := search_console st @ [m], searching := False\<rparr>
      | Responded r \<Rightarrow>
          (case bodyJson r of
             Throws m \<Rightarrow> st\<lparr>search_console := search_console st @ [m], searching := False\<rparr>
           | Value data \<Rightarrow> st\<lparr>results := data, searching := False\<rparr>))"



text \<open>
  One SemanticClauseSearch instance together with the requests it has issued, in the
  order of issue, and the positions (counting from 0) of those still unanswered.
\<close>

record search_world =
  component :: search_state
  issued :: "search_request list"
  pending :: "nat list"





text \<open>The result list: \<open>results.matches?.map((match, idx) => ...)\<close>, one row per match.\<close>

definition matchRows :: "search_result \<Rightarrow> (nat \<times> clause_match) list" where
  "matchRows r = enumerate 0 (matches r)"

section \<open>DocumentChatbot and FloatingChatbot\<close>

datatype role = User | Assistant

record message =
  role :: role
  content :: jsstring
  timestamp :: nat

text \<open>
  The two chat components run the same \<open>handleSend\<close>; they differ in the greeting and in
  the text of the reply appended by the \<open>catch\<close> block.
\<close>

datatype chatbot = DocumentChatbot | FloatingChatbot

fun greeting :: "chatbot \<Rightarrow> jsstring" where
  "greeting DocumentChatbot =
     js (''Hi! I'' @ [CHR 0x27] @ ''m your AI legal assistant. Ask me anything about this document, '' @
         ''its clauses, risks, or compliance requirements.'')"
| "greeting FloatingChatbot = js ''Hi! Ask me anything about this document.''"

fun errorReply :: "chatbot \<Rightarrow> jsstring" where
  "errorReply DocumentChatbot =
     js ''Sorry, there was an error processing your question. Please try again.''"
| "errorReply FloatingChatbot = js ''Sorry, there was an error. Please try again.''"

definition noAnswerReply :: jsstring where
  "noAnswerReply = js (''Sorry, I couldn'' @ [CHR 0x27] @ ''t process that question.'')"

record chat_props =
  documentId :: jsstring
  documentText :: jsstring
  summary :: "jsstring option"

record chat_state =
  messages :: "message list"
  input :: jsstring
  loading :: bool
  chat_console :: "jsstring list"

record chat_request =
  chat_document_id :: jsstring
  question :: jsstring
  document_text :: jsstring
  analysis_summary :: jsstring

record chat_data =
  answer :: "jsstring option"

text \<open>The initial state of a component created at time \<open>now\<close>.\<close>

definition initialChat :: "chatbot \<Rightarrow> nat \<Rightarrow> chat_state" where
  "initialChat cb now =
     \<lparr>messages = [\<lparr>role = Assistant, content = greeting cb, timestamp = now\<rparr>],
      input = [], loading = False, chat_console = []\<rparr>"

text \<open>
  \<open>handleSend\<close> up to its \<open>await fetch\<close>, called at time \<open>now\<close>;
  \<open>summary\<close> is \<open>analysis?.ai_summary?.summary\<close>.
\<close>

definition handleSend :: "chat_props \<Rightarrow> nat \<Rightarrow> chat_state \<Rightarrow> (chat_state, chat_request) step" where
  "handleSend props now st =
     (if trim (input st) = [] \<or> loading st then Return st
      else
        let userMessage = \<lparr>role = User, content = input st, timestamp = now\<rparr> in
        Await \<lparr>chat_document_id = documentId props,
               question = input st,
               document_text = substring (documentText props) 0 3000,
               analysis_summary = (case summary props of Some s \<Rightarrow> s | None \<Rightarrow> [])\<rparr>
              (st\<lparr>messages := messages st @ [userMessage], input := [], loading := True\<rparr>))"

text \<open>
  \<open>handleSend\<close> from the point where the fetch settles, at time \<open>now\<close>. When a payload
  was read, the reply is \<open>data.answer || ...\<close>; when the fetch or the reading threw,
  the \<open>catch\<close> block logs the error and appends its own reply; \<open>finally\<close> clears
  \<open>loading\<close>. Both replies are appended to the history as it is at that moment
  (\<open>setMessages(prev => [...prev, ...])\<close>).
\<close>

definition afterSend :: "chatbot \<Rightarrow> nat \<Rightarrow> chat_state \<Rightarrow> chat_data fetch_outcome \<Rightarrow> chat_state" where
  "afterSend cb now st outcome =
     (let caught = (\<lambda>m.
            let errorMessage = \<lparr>role = Assistant, content = errorReply cb, timestamp = now\<rparr> in
            st\<lparr>messages := messages st @ [errorMessage],
               chat_console := chat_console st @ [m], loading := False\<rparr>)
      in case outcome of
           Rejected m \<Rightarrow> caught m
         | Responded r \<Rightarrow>
             (case bodyJson r of
                Throws m \<Rightarrow> caught m
              | Value data \<Rightarrow>
                  let assistantMessage =
                        \<lparr>role = Assistant,
                         content = (case answer data of
                                      Some a \<Rightarrow> if a = [] then noAnswerReply else a
                                    | None \<Rightarrow> noAnswerReply),
                         timestamp = now\<rparr> in
                  st\<lparr>messages := messages st @ [assistantMessage], loading := False\<rparr>))"

section \<open>RiskHeatmap\<close>

record risk_matrix =
  Critical :: real
  High :: real
  Medium :: real
  Low :: real

record heatmap_data =
  risk_matrix :: "risk_matrix option"

definition matrix :: "heatmap_data \<Rightarrow> risk_matrix" where
  "matrix d =
     (case risk_matrix d of
        Some m \<Rightarrow> m
      | None \<Rightarrow> \<lparr>Critical = 0, High = 0, Medium = 0, Low = 0\<rparr>)"

definition total :: "heatmap_data \<Rightarrow> real" where
  "total d = Critical (matrix d) + High (matrix d) + Medium (matrix d) + Low (matrix d)"

definition getPercentage :: "heatmap_data \<Rightarrow> real \<Rightarrow> jsnum" where
  "getPercentage d cnt =
     (if total d = 0 then Num 0 else js_times (js_div cnt (total d)) 100)"

text \<open>
  One row of the Risk Breakdown,
  \<open>{matrix.X > 0 && (... width: `${Math.max(15, getPercentage(matrix.X))}%` ... {matrix.X})}\<close>:
  rendered only for a positive count, with its label, the width of its bar in percent
  and the count printed inside the bar.
\<close>

definition breakdownRow :: "heatmap_data \<Rightarrow> string \<Rightarrow> real \<Rightarrow> (string \<times> jsnum \<times> real) list" where
  "breakdownRow d label cnt =
     (if cnt > 0 then [(label, js_max 15 (getPercentage d cnt), cnt)] else [])"

text \<open>The four rows, in the order of the source.\<close>

definition riskBreakdown :: "heatmap_data \<Rightarrow> (string \<times> jsnum \<times> real) list" where
  "riskBreakdown d =
     breakdownRow d ''Critical'' (Critical (matrix d)) @
     breakdownRow d ''High'' (High (matrix d)) @
     breakdownRow d ''Medium'' (Medium (matrix d)) @
     breakdownRow d ''Low'' (Low (matrix d))"

section \<open>DocumentClassification\<close>

text \<open>
  \<open>classification\<close> is a \<open>Record<string, number>\<close>; \<open>Object.entries\<close> lists its label
  and score pairs in the order the payload has them (the labels are names of document
  types, not integer-like keys). Scores are finite numbers.
\<close>

record classification_data =
  classification :: "(jsstring \<times> real) list"

text \<open>The comparator \<open>([, a], [, b]) => b - a\<close>.\<close>

definition compareScores :: "jsstring \<times> real \<Rightarrow> jsstring \<times> real \<Rightarrow> real" where
  "compareScores x y = snd y - snd x"

text \<open>The rows under "All Classifications", in the order they are rendered.\<close>

definition classificationRows :: "classification_data \<Rightarrow> (jsstring \<times> real) list" where
  "classificationRows d = array_sort compareScores (classification d)"

section \<open>Scenarios\<close>

text \<open>
  Concrete inputs on which the theorems below are exercised: the upload of
  \<open>contract.pdf\<close> answered with the document id \<open>doc-001\<close>, servers that fail one of
  the two steps, and two search queries typed one after the other.
\<close>

definition contractPdf :: jsfile where
  "contractPdf = \<lparr>filename = js ''contract.pdf'', bytes = [0x25, 0x50, 0x44, 0x46]\<rparr>"

definition idlePage :: "jsstring page_state" where
  "idlePage = \<lparr>selectedFile = Some contractPdf, uploading = False, analyzing = False,
                result = None, error = []\<rparr>"

definition createdResponse :: "upload_data response" where
  "createdResponse = \<lparr>status = 200, bodyText = js ''{document_id: doc-001}'',
                       bodyJson = Value \<lparr>document_id = Some (js ''doc-001'')\<rparr>\<rparr>"

definition tooLargeResponse :: "upload_data response" where
  "tooLargeResponse = \<lparr>status = 413, bodyText = js ''quota exceeded'',
                        bodyJson = Throws (js ''Unexpected token q'')\<rparr>"

definition analysisResponse :: "jsstring response" where
  "analysisResponse = \<lparr>status = 200, bodyText = js ''{risk_level: High}'',
                        bodyJson = Value (js ''High'')\<rparr>"

definition unavailableResponse :: "jsstring response" where
  "unavailableResponse = \<lparr>status = 500, bodyText = js ''model not loaded'',
                           bodyJson = Throws (js ''Unexpected token m'')\<rparr>"

definition anonymousResponse :: "upload_data response" where
  "anonymousResponse = \<lparr>status = 200, bodyText = js ''{filename: contract.pdf}'',
                         bodyJson = Value \<lparr>document_id = None\<rparr>\<rparr>"

definition noIdServer :: "jsstring server" where
  "noIdServer = \<lparr>uploadResponse = (\<lambda>f. Responded anonymousResponse),
                  analyzeResponse = (\<lambda>d. Responded analysisResponse)\<rparr>"

definition goodServer :: "jsstring server" where
  "goodServer = \<lparr>uploadResponse = (\<lambda>f. Responded createdResponse),
                  analyzeResponse = (\<lambda>d. Responded analysisResponse)\<rparr>"

definition noUploadServer :: "jsstring server" where
  "noUploadServer = \<lparr>uploadResponse = (\<lambda>f. Responded tooLargeResponse),
                      analyzeResponse = (\<lambda>d. Responded analysisResponse)\<rparr>"

definition noAnalyzeServer :: "jsstring server" where
  "noAnalyzeServer = \<lparr>uploadResponse = (\<lambda>f. Responded createdResponse),
                       analyzeResponse = (\<lambda>d. Responded unavailableResponse)\<rparr>"


definition freshSearch :: search_state where
  "freshSearch = \<lparr>searchQuery = [], results = None, searching = False, search_console = []\<rparr>"




definition errorBody :: "search_result option fetch_outcome" where
  "errorBody = Responded \<lparr>status = 500, bodyText = js ''{detail: failed}'',
                           bodyJson = Value (Some \<lparr>query = [], total_clauses = 0, matches = []\<rparr>)\<rparr>"

definition chatProps :: chat_props where
  "chatProps = \<lparr>documentId = js ''doc-001'', documentText = js ''This Agreement is made on'',
                 summary = None\<rparr>"

definition typedQuestion :: chat_state where
  "typedQuestion = (initialChat FloatingChatbot 0)\<lparr>input := js ''Who pays?''\<rparr>"

definition answered :: "chat_data fetch_outcome" where
  "answered = Responded \<lparr>status = 200, bodyText = js ''{answer: The tenant.}'',
                          bodyJson = Value \<lparr>answer = Some (js ''The tenant.'')\<rparr>\<rparr>"

definition mixedMatrix :: heatmap_data where
  "mixedMatrix = \<lparr>risk_matrix = Some \<lparr>Critical = 1, High = 3, Medium = 2, Low = 2\<rparr>\<rparr>"

definition classified :: classification_data where
  "classified = \<lparr>classification = [(js ''nda'', 0.1), (js ''lease_agreement'', 0.7),
                                    (js ''service_agreement'', 0.2)]\<rparr>"

definition classifiedReordered :: classification_data where
  "classifiedReordered = \<lparr>classification = [(js ''service_agreement'', 0.2), (js ''nda'', 0.1),
                                             (js ''lease_agreement'', 0.7)]\<rparr>"

section \<open>Facts about the JavaScript operations\<close>

lemma trim_empty_iff: "trim s = [] \<longleftrightarrow> (\<forall>c \<in> set s. isWhiteSpace c)"
proof -
  have "(\<forall>x \<in> set (dropWhile isWhiteSpace s). isWhiteSpace x) \<longleftrightarrow> dropWhile isWhiteSpace s = []"
  proof
    assume white: "\<forall>x \<in> set (dropWhile isWhiteSpace s). isWhiteSpace x"
    show "dropWhile isWhiteSpace s = []"
    proof (rule ccontr)
      assume rest: "dropWhile isWhiteSpace s \<noteq> []"
      then have "\<not> isWhiteSpace (hd (dropWhile isWhiteSpace s))"
        by (rule hd_dropWhile)
      moreover have "hd (dropWhile isWhiteSpace s) \<in> set (dropWhile isWhiteSpace s)"
        using rest by simp
      ultimately show False
        using white by blast
    qed
  next
    assume none: "dropWhile isWhiteSpace s = []"
    show "\<forall>x \<in> set (dropWhile isWhiteSpace s). isWhiteSpace x"
      unfolding none by simp
  qed
  then show ?thesis
    by (simp add: trim_def dropWhile_eq_Nil_conv)
qed


lemma trim_termination: "trim (js ''termination'') \<noteq> []"
  by (simp add: trim_def isWhiteSpace_def js_def)

lemma substring_prefix: "substring s 0 n = take n s"
  by (simp add: substring_def Let_def min_def)

text \<open>Without a guard, the quotient of two zero counts is NaN, and stays NaN when scaled.\<close>

lemma unguarded_percentage_NaN: "js_times (js_div 0 0) 100 = NaN"
  by (simp add: js_div_def)

lemma mset_insertBy: "mset (insertBy cmp x xs) = add_mset x (mset xs)"
  by (induction xs) auto

lemma mset_array_sort: "mset (array_sort cmp xs) = mset xs"
  by (induction xs) (auto simp: array_sort_def mset_insertBy)

lemma set_insertBy: "set (insertBy cmp x xs) = insert x (set xs)"
  by (induction xs) auto

lemma descending_insertBy:
  "sorted_wrt (\<lambda>a b. snd b \<le> snd a) xs \<Longrightarrow>
   sorted_wrt (\<lambda>a b. snd b \<le> snd a) (insertBy compareScores x xs)"
  by (induction xs) (auto simp: set_insertBy compareScores_def)

lemma descending_array_sort:
  "sorted_wrt (\<lambda>a b. snd b \<le> snd a) (array_sort compareScores xs)"
  by (induction xs) (auto simp: array_sort_def descending_insertBy)

text \<open>Two descending lists over the same entries show the same sequence of scores.\<close>

lemma descending_scores_unique:
  fixes xs ys :: "('a \<times> real) list"
  assumes "sorted_wrt (\<lambda>a b. snd b \<le> snd a) xs"
    and "sorted_wrt (\<lambda>a b. snd b \<le> snd a) ys"
    and "mset xs = mset ys"
  shows "map snd xs = map snd ys"
proof -
  let ?k = "\<lambda>p :: 'a \<times> real. - snd p"
  have sx: "sorted (map ?k xs)"
    using assms(1) by (simp add: sorted_wrt_map)
  have sy: "sorted (map ?k ys)"
    using assms(2) by (simp add: sorted_wrt_map)
  have "mset (map ?k xs) = mset (map ?k ys)"
    using assms(3) by (metis mset_map)
  then have "sort (map ?k ys) = map ?k xs"
    using sx by (rule properties_for_sort)
  moreover have "sort (map ?k ys) = map ?k ys"
    using sy by (simp add: sort_key_id_if_sorted)
  ultimately have "map ?k xs = map ?k ys"
    by simp
  then have "map uminus (map ?k xs) = map uminus (map ?k ys)"
    by simp
  then show ?thesis
    by (simp add: comp_def)
qed

section \<open>Similarity bands\<close>

lemma getColorForScore_green:
  "getColorForScore s = ''from-green-500 to-emerald-600'' \<longleftrightarrow> 0.9 \<le> s"
  by (simp add: getColorForScore_def)

lemma getColorForScore_blue:
  "getColorForScore s = ''from-blue-500 to-cyan-600'' \<longleftrightarrow> 0.75 \<le> s \<and> s < 0.9"
  by (simp add: getColorForScore_def)

lemma getColorForScore_yellow:
  "getColorForScore s = ''from-yellow-500 to-orange-500'' \<longleftrightarrow> 0.6 \<le> s \<and> s < 0.75"
  by (simp add: getColorForScore_def)

lemma getColorForScore_orange:
  "getColorForScore s = ''from-orange-500 to-red-500'' \<longleftrightarrow> 0.4 \<le> s \<and> s < 0.6"
  by (simp add: getColorForScore_def)

lemma getColorForScore_red:
  "getColorForScore s = ''from-red-500 to-pink-600'' \<longleftrightarrow> s < 0.4"
  by (simp add: getColorForScore_def)

lemma bandLabel_at_boundaries:
  "bandLabel (getColorForScore 0.9) = ''Nearly identical documents''"
  "bandLabel (getColorForScore 0.75) = ''Very similar structure and content''"
  "bandLabel (getColorForScore 0.6) = ''Moderately similar, same type''"
  "bandLabel (getColorForScore 0.4) = ''Somewhat similar clauses''"
  "bandLabel (getColorForScore 0.8999) = ''Very similar structure and content''"
  "bandLabel (getColorForScore 0) = ''Different documents''"
  by (simp_all add: getColorForScore_def bandLabel_def)

text \<open>
  C5. The comparison view classifies a score high to low, and every threshold is
  inclusive at its lower end: each of the five colour bands is exactly the set of
  scores from its threshold up to, and excluding, the threshold above. So 0.90, 0.75,
  0.60 and 0.40 belong to the higher band; 0.90 lies in the band labelled "Nearly
  identical documents", 0.8999 in "Very similar structure and content" and 0 in
  "Different documents".
\<close>

theorem C5_thresholds_inclusive:
  "(getColorForScore s = ''from-green-500 to-emerald-600'' \<longleftrightarrow> 0.9 \<le> s) \<and>
   (getColorForScore s = ''from-blue-500 to-cyan-600'' \<longleftrightarrow> 0.75 \<le> s \<and> s < 0.9) \<and>
   (getColorForScore s = ''from-yellow-500 to-orange-500'' \<longleftrightarrow> 0.6 \<le> s \<and> s < 0.75) \<and>
   (getColorForScore s = ''from-orange-500 to-red-500'' \<longleftrightarrow> 0.4 \<le> s \<and> s < 0.6) \<and>
   (getColorForScore s = ''from-red-500 to-pink-600'' \<longleftrightarrow> s < 0.4) \<and>
   bandLabel (getColorForScore 0.9) = ''Nearly identical documents'' \<and>
   bandLabel (getColorForScore 0.75) = ''Very similar structure and content'' \<and>
   bandLabel (getColorForScore 0.6) = ''Moderately similar, same type'' \<and>
   bandLabel (getColorForScore 0.4) = ''Somewhat similar clauses'' \<and>
   bandLabel (getColorForScore 0.8999) = ''Very similar structure and content'' \<and>
   bandLabel (getColorForScore 0) = ''Different documents''"
  by (intro conjI getColorForScore_green getColorForScore_blue getColorForScore_yellow
      getColorForScore_orange getColorForScore_red bandLabel_at_boundaries)

text \<open>The theorem at the score 0.9: the first band contains its own threshold.\<close>

theorem C5_thresholds_inclusive_witness:
  "getColorForScore 0.9 = ''from-green-500 to-emerald-600'' \<and>
   getColorForScore 0.9 \<noteq> ''from-blue-500 to-cyan-600''"
  using C5_thresholds_inclusive [of "0.9"] by simp

text \<open>
  C6, as stated, fails: the search view has four bands and the comparison view five.
  The scores 0.5 and 0.3 lie in two different bands of the comparison view and in one
  band of the search view.
\<close>

theorem C6_bands_diverge_below_60:
  "getColorForScore 0.5 \<noteq> getColorForScore 0.3 \<and>
   getSimilarityColor 0.5 = getSimilarityColor 0.3"
  by (simp add: getColorForScore_def getSimilarityColor_def)

text \<open>
  C6, amended. The two views use the same inclusive thresholds 0.90, 0.75 and 0.60: for
  two scores of which at least one reaches 0.60, they agree on whether the scores share
  a band. Below 0.60 the search view has one band; two scores in one band of the
  comparison view are always in one band of the search view.
\<close>

theorem C6_bands_agree_from_60:
  "(0.6 \<le> s \<or> 0.6 \<le> t \<longrightarrow>
      (getColorForScore s = getColorForScore t \<longleftrightarrow> getSimilarityColor s = getSimilarityColor t)) \<and>
   (getColorForScore s = getColorForScore t \<longrightarrow> getSimilarityColor s = getSimilarityColor t) \<and>
   (s < 0.6 \<and> t < 0.6 \<longrightarrow> getSimilarityColor s = getSimilarityColor t)"
proof (intro conjI impI)
  assume "0.6 \<le> s \<or> 0.6 \<le> t"
  then show "getColorForScore s = getColorForScore t \<longleftrightarrow> getSimilarityColor s = getSimilarityColor t"
    by (auto simp add: getColorForScore_def getSimilarityColor_def)
next
  assume "getColorForScore s = getColorForScore t"
  then show "getSimilarityColor s = getSimilarityColor t"
    by (simp add: getColorForScore_def getSimilarityColor_def split: if_splits)
next
  assume "s < 0.6 \<and> t < 0.6"
  then show "getSimilarityColor s = getSimilarityColor t"
    by (simp add: getSimilarityColor_def)
qed

text \<open>The theorem at 0.95 and 0.8 (different bands in both views) and at 0.5 and 0.3.\<close>

theorem C6_bands_agree_from_60_witness:
  "((0.6::real) \<le> 0.95 \<or> (0.6::real) \<le> 0.8) \<and>
   getColorForScore 0.95 \<noteq> getColorForScore 0.8 \<and>
   getSimilarityColor 0.95 \<noteq> getSimilarityColor 0.8 \<and>
   getColorForScore 0.77 = getColorForScore 0.8 \<and>
   getSimilarityColor 0.77 = getSimilarityColor 0.8 \<and>
   ((0.5::real) < 0.6 \<and> (0.3::real) < 0.6) \<and>
   getSimilarityColor 0.5 = getSimilarityColor 0.3"
  using C6_bands_agree_from_60 [of "0.95" "0.8"] C6_bands_agree_from_60 [of "0.77" "0.8"]
    C6_bands_agree_from_60 [of "0.5" "0.3"]
  by (simp add: getColorForScore_def)

section \<open>Risk percentages\<close>

text \<open>
  C9, as stated, fails for the percentage shown. In a matrix of 1 critical, 3 high, 2
  medium and 2 low risk factors, the critical count is 12.5 percent of the total, but
  its bar is shown with a width of 15 percent.
\<close>

theorem C9_shown_width_has_floor:
  "getPercentage mixedMatrix (Critical (matrix mixedMatrix)) = Num 12.5 \<and>
   riskBreakdown mixedMatrix =
     [(''Critical'', Num 15, 1), (''High'', Num 37.5, 3),
      (''Medium'', Num 25, 2), (''Low'', Num 25, 2)]"
  by (simp add: riskBreakdown_def breakdownRow_def getPercentage_def total_def matrix_def
      mixedMatrix_def js_div_def)

text \<open>
  C9, amended. For every risk matrix, the total is the sum of the four bucket counts
  Critical, High, Medium and Low, and the percentage of a count is the count divided by
  that total, times 100, and 0 when the total is zero: always a finite number, never
  NaN and never an infinity. A bucket has a row only when its count is positive, and
  the width shown for its bar is the larger of 15 and its percentage; the rows are
  those of Critical, High, Medium and Low, in this order.
\<close>

theorem C9_percentage_guarded:
  "total d = Critical (matrix d) + High (matrix d) + Medium (matrix d) + Low (matrix d) \<and>
   getPercentage d cnt = Num (if total d = 0 then 0 else cnt / total d * 100) \<and>
   getPercentage d cnt \<noteq> NaN \<and>
   getPercentage d cnt \<noteq> PosInfinity \<and> getPercentage d cnt \<noteq> NegInfinity \<and>
   breakdownRow d label cnt =
     (if 0 < cnt
      then [(label, Num (max 15 (if total d = 0 then 0 else cnt / total d * 100)), cnt)]
      else []) \<and>
   riskBreakdown d =
     breakdownRow d ''Critical'' (Critical (matrix d)) @
     breakdownRow d ''High'' (High (matrix d)) @
     breakdownRow d ''Medium'' (Medium (matrix d)) @
     breakdownRow d ''Low'' (Low (matrix d))"
  by (simp add: getPercentage_def js_div_def breakdownRow_def riskBreakdown_def total_def)

text \<open>
  The theorem on the empty matrix, which has no row, and on the low bucket of a matrix
  with eight risk factors in four non-empty buckets.
\<close>

theorem C9_percentage_guarded_witness:
  "getPercentage \<lparr>risk_matrix = None\<rparr> 0 = Num 0 \<and>
   riskBreakdown \<lparr>risk_matrix = None\<rparr> = [] \<and>
   total mixedMatrix = 8 \<and>
   getPercentage mixedMatrix (Low (matrix mixedMatrix)) = Num 25 \<and>
   breakdownRow mixedMatrix ''Low'' (Low (matrix mixedMatrix)) = [(''Low'', Num 25, 2)]"
  using C9_percentage_guarded [of "\<lparr>risk_matrix = None\<rparr>" 0 "''Critical''"]
    C9_percentage_guarded [of mixedMatrix "Low (matrix mixedMatrix)" "''Low''"]
  by (simp add: matrix_def mixedMatrix_def total_def breakdownRow_def)

section \<open>Classification rows\<close>

text \<open>
  C10. Whatever the order of the entries in the payload, the rows of the classification
  view are its entries in descending order of score: the rows are a rearrangement of
  the entries, each row's score is at least the score of every later row, and two
  payloads with the same entries in different orders show the same sequence of
  scores. The search view, in contrast, renders the matches in the order received.
\<close>

theorem C10_classification_sorted_descending:
  "sorted_wrt (\<lambda>a b. snd b \<le> snd a) (classificationRows d) \<and>
   mset (classificationRows d) = mset (classification d) \<and>
   (mset (classification d') = mset (classification d) \<longrightarrow>
      map snd (classificationRows d') = map snd (classificationRows d)) \<and>
   map snd (matchRows r) = matches r"
proof (intro conjI impI)
  show "sorted_wrt (\<lambda>a b. snd b \<le> snd a) (classificationRows d)"
    by (simp add: classificationRows_def descending_array_sort)
  show "mset (classificationRows d) = mset (classification d)"
    by (simp add: classificationRows_def mset_array_sort)
  show "map snd (matchRows r) = matches r"
    by (simp add: matchRows_def)
next
  assume "mset (classification d') = mset (classification d)"
  then have "mset (classificationRows d') = mset (classificationRows d)"
    by (simp add: classificationRows_def mset_array_sort)
  then show "map snd (classificationRows d') = map snd (classificationRows d)"
    by (intro descending_scores_unique) (simp_all add: classificationRows_def descending_array_sort)
qed

text \<open>The theorem on a payload of three labels and on the same payload in another order.\<close>

theorem C10_classification_sorted_descending_witness:
  "mset (classification classifiedReordered) = mset (classification classified) \<and>
   map snd (classificationRows classified) = [0.7, 0.2, 0.1] \<and>
   map snd (classificationRows classifiedReordered) = map snd (classificationRows classified)"
proof -
  have same: "mset (classification classifiedReordered) = mset (classification classified)"
    by (simp add: classified_def classifiedReordered_def)
  have rows: "map snd (classificationRows classified) = [0.7, 0.2, 0.1]"
    by (simp add: classificationRows_def classified_def array_sort_def compareScores_def)
  show ?thesis
    using same rows C10_classification_sorted_descending [of classified classifiedReordered]
    by simp
qed

section \<open>The analysis workflow\<close>

text \<open>
  C2, as stated, fails in one case. An upload answered with status 200 and a payload
  that carries no \<open>document_id\<close> is followed by an analyze request all the same, and
  that request is keyed by the text \<open>undefined\<close>, which the response did not return.
\<close>

theorem C2_analyze_keyed_undefined:
  "ok anonymousResponse \<and>
   bodyJson anonymousResponse = Value \<lparr>document_id = None\<rparr> \<and>
   snd (handleUploadAndAnalyze noIdServer idlePage) =
     [PostUpload contractPdf, PostAnalyze (js ''undefined'')]"
  by (simp add: handleUploadAndAnalyze_def noIdServer_def idlePage_def anonymousResponse_def
      analysisResponse_def ok_def analyzePath_def Let_def)

text \<open>
  C2, amended. In every run of the workflow, an analyze request is issued only when the
  upload response arrived with a 2xx status and a readable payload; it is then the
  second and last request, after the upload request, and its path carries the
  \<open>document_id\<close> field of that payload as the URL template prints it: exactly the
  document id when the payload has one, the text \<open>undefined\<close> when it has none. When
  the upload does not complete successfully (no response, a non-2xx status, or an
  unreadable payload), no analyze request is issued.
\<close>

theorem C2_analyze_follows_successful_upload:
  "(PostAnalyze d \<in> set (snd (handleUploadAndAnalyze srv st)) \<longrightarrow>
      (\<exists>f r u. selectedFile st = Some f \<and> uploadResponse srv f = Responded r \<and> ok r \<and>
         bodyJson r = Value u \<and>
         (\<forall>i. document_id u = Some i \<longrightarrow> d = i) \<and>
         (document_id u = None \<longrightarrow> d = js ''undefined'') \<and>
         snd (handleUploadAndAnalyze srv st) = [PostUpload f, PostAnalyze d])) \<and>
   ((\<forall>f r. selectedFile st = Some f \<and> uploadResponse srv f = Responded r \<and> ok r
        \<longrightarrow> (\<exists>m. bodyJson r = Throws m)) \<longrightarrow>
      (\<forall>d'. PostAnalyze d' \<notin> set (snd (handleUploadAndAnalyze srv st))))"
  by (auto simp: handleUploadAndAnalyze_def Let_def analyzePath_def
           split: option.splits fetch_outcome.splits decoded.splits if_splits)

text \<open>
  The theorem on the upload of \<open>contract.pdf\<close>: answered with \<open>doc-001\<close>, the analyze
  request is keyed by \<open>doc-001\<close>; answered without an id, it is keyed by \<open>undefined\<close>;
  refused with status 413, no analyze request follows.
\<close>

theorem C2_analyze_follows_successful_upload_witness:
  "PostAnalyze (js ''doc-001'') \<in> set (snd (handleUploadAndAnalyze goodServer idlePage)) \<and>
   (\<exists>f r u. selectedFile idlePage = Some f \<and> uploadResponse goodServer f = Responded r \<and> ok r \<and>
      bodyJson r = Value u \<and> document_id u = Some (js ''doc-001'') \<and>
      snd (handleUploadAndAnalyze goodServer idlePage) = [PostUpload f, PostAnalyze (js ''doc-001'')]) \<and>
   PostAnalyze (js ''undefined'') \<in> set (snd (handleUploadAndAnalyze noIdServer idlePage)) \<and>
   (\<exists>f r u. uploadResponse noIdServer f = Responded r \<and> ok r \<and>
      bodyJson r = Value u \<and> document_id u = None \<and>
      snd (handleUploadAndAnalyze noIdServer idlePage) = [PostUpload f, PostAnalyze (js ''undefined'')]) \<and>
   \<not> ok tooLargeResponse \<and>
   (\<forall>d'. PostAnalyze d' \<notin> set (snd (handleUploadAndAnalyze noUploadServer idlePage)))"
proof -
  have issued: "PostAnalyze (js ''doc-001'') \<in> set (snd (handleUploadAndAnalyze goodServer idlePage))"
    by (simp add: handleUploadAndAnalyze_def goodServer_def idlePage_def createdResponse_def
        analysisResponse_def ok_def analyzePath_def Let_def)
  have good: "\<exists>f r u. selectedFile idlePage = Some f \<and> uploadResponse goodServer f = Responded r \<and>
      ok r \<and> bodyJson r = Value u \<and> document_id u = Some (js ''doc-001'') \<and>
      snd (handleUploadAndAnalyze goodServer idlePage) = [PostUpload f, PostAnalyze (js ''doc-001'')]"
    using issued C2_analyze_follows_successful_upload [of "js ''doc-001''" goodServer idlePage]
    by (auto simp: goodServer_def createdResponse_def)
  have unkeyed: "PostAnalyze (js ''undefined'') \<in> set (snd (handleUploadAndAnalyze noIdServer idlePage))"
    by (simp add: handleUploadAndAnalyze_def noIdServer_def idlePage_def anonymousResponse_def
        analysisResponse_def ok_def analyzePath_def Let_def)
  have anonymous: "\<exists>f r u. uploadResponse noIdServer f = Responded r \<and> ok r \<and>
      bodyJson r = Value u \<and> document_id u = None \<and>
      snd (handleUploadAndAnalyze noIdServer idlePage) = [PostUpload f, PostAnalyze (js ''undefined'')]"
    using unkeyed C2_analyze_follows_successful_upload [of "js ''undefined''" noIdServer idlePage]
    by (auto simp: noIdServer_def anonymousResponse_def)
  have refused: "\<not> ok tooLargeResponse"
    by (simp add: ok_def tooLargeResponse_def)
  then have "\<forall>f r. selectedFile idlePage = Some f \<and> uploadResponse noUploadServer f = Responded r \<and> ok r
      \<longrightarrow> (\<exists>m. bodyJson r = Throws m)"
    by (simp add: noUploadServer_def)
  then have "\<forall>d'. PostAnalyze d' \<notin> set (snd (handleUploadAndAnalyze noUploadServer idlePage))"
    using C2_analyze_follows_successful_upload [of _ noUploadServer idlePage] by blast
  with issued good unkeyed anonymous refused show ?thesis
    by blast
qed

text \<open>
  C7, as stated, fails on two counts. The search handler does not look at the status: a
  response with status 500 whose body parses is stored as the search result, and
  nothing is logged. The upload step does treat a non-2xx status as a failure, but
  reports the fixed message \<open>Upload failed\<close>, not the body text of the response.
\<close>

theorem C7_status_ignored_by_search:
  "\<not> ok \<lparr>status = 500, bodyText = js ''{detail: failed}'',
          bodyJson = Value (Some \<lparr>query = [], total_clauses = 0, matches = []\<rparr>)\<rparr> \<and>
   afterSearch (freshSearch\<lparr>searching := True\<rparr>) errorBody =
     freshSearch\<lparr>results := Some \<lparr>query = [], total_clauses = 0, matches = []\<rparr>\<rparr> \<and>
   bodyText tooLargeResponse = js ''quota exceeded'' \<and>
   error (fst (handleUploadAndAnalyze noUploadServer idlePage)) = js ''Upload failed''"
  by (simp add: afterSearch_def errorBody_def freshSearch_def handleUploadAndAnalyze_def
      noUploadServer_def idlePage_def tooLargeResponse_def ok_def catchError_def Let_def js_def)

text \<open>
  C7, amended. For the two requests of the analysis workflow, a response with a non-2xx
  status is a failure whatever its body: the workflow stops there, no result is stored
  and both progress flags are cleared. A failed upload reports the fixed message
  \<open>Upload failed\<close> and issues no analyze request; a failed analyze reports
  \<open>Analysis failed: \<close> followed by the body text of the response.
\<close>

theorem C7_workflow_rejects_non_2xx:
  "(selectedFile st = Some f \<and> uploadResponse srv f = Responded r \<and> \<not> ok r \<longrightarrow>
      handleUploadAndAnalyze srv st =
        (st\<lparr>uploading := False, analyzing := False, error := js ''Upload failed''\<rparr>,
         [PostUpload f])) \<and>
   (selectedFile st = Some f \<and> uploadResponse srv f = Responded r \<and> ok r \<and>
    bodyJson r = Value u \<and> analyzeResponse srv (analyzePath u) = Responded r' \<and> \<not> ok r' \<longrightarrow>
      handleUploadAndAnalyze srv st =
        (st\<lparr>uploading := False, analyzing := False,
            error := js ''Analysis failed: '' @ bodyText r'\<rparr>,
         [PostUpload f, PostAnalyze (analyzePath u)]))"
  by (simp add: handleUploadAndAnalyze_def catchError_def Let_def js_def)

text \<open>The theorem on an upload refused with status 413 and an analysis refused with 500.\<close>

theorem C7_workflow_rejects_non_2xx_witness:
  "\<not> ok tooLargeResponse \<and>
   handleUploadAndAnalyze noUploadServer idlePage =
     (idlePage\<lparr>error := js ''Upload failed''\<rparr>, [PostUpload contractPdf]) \<and>
   ok createdResponse \<and> \<not> ok unavailableResponse \<and>
   handleUploadAndAnalyze noAnalyzeServer idlePage =
     (idlePage\<lparr>error := js ''Analysis failed: '' @ js ''model not loaded''\<rparr>,
      [PostUpload contractPdf, PostAnalyze (js ''doc-001'')])"
proof -
  have chosen: "selectedFile idlePage = Some contractPdf"
    by (simp add: idlePage_def)
  have statuses: "\<not> ok tooLargeResponse" "ok createdResponse" "\<not> ok unavailableResponse"
    by (simp_all add: ok_def tooLargeResponse_def createdResponse_def unavailableResponse_def)
  have upload: "handleUploadAndAnalyze noUploadServer idlePage =
     (idlePage\<lparr>uploading := False, analyzing := False, error := js ''Upload failed''\<rparr>,
      [PostUpload contractPdf])"
    using chosen statuses
      C7_workflow_rejects_non_2xx [of idlePage contractPdf noUploadServer tooLargeResponse]
    by (simp add: noUploadServer_def)
  have "handleUploadAndAnalyze noAnalyzeServer idlePage =
     (idlePage\<lparr>uploading := False, analyzing := False,
        error := js ''Analysis failed: '' @ bodyText unavailableResponse\<rparr>,
      [PostUpload contractPdf,
       PostAnalyze (analyzePath \<lparr>document_id = Some (js ''doc-001'')\<rparr>)])"
    using chosen statuses
      C7_workflow_rejects_non_2xx [of idlePage contractPdf noAnalyzeServer createdResponse
        "\<lparr>document_id = Some (js ''doc-001'')\<rparr>" unavailableResponse]
    by (simp add: noAnalyzeServer_def createdResponse_def)
  then have analyze: "handleUploadAndAnalyze noAnalyzeServer idlePage =
     (idlePage\<lparr>error := js ''Analysis failed: '' @ js ''model not loaded''\<rparr>,
      [PostUpload contractPdf, PostAnalyze (js ''doc-001'')])"
    by (simp add: idlePage_def analyzePath_def unavailableResponse_def)
  from upload have "handleUploadAndAnalyze noUploadServer idlePage =
     (idlePage\<lparr>error := js ''Upload failed''\<rparr>, [PostUpload contractPdf])"
    by (simp add: idlePage_def)
  with statuses analyze show ?thesis
    by simp
qed

section \<open>Semantic search\<close>








section \<open>Conversation\<close>

text \<open>
  C3. For every accepted ask (the question is not empty after trimming and no ask is
  pending), in either chat component: the first part of the handler appends the user
  message and issues the request; when the request settles, whatever its outcome,
  exactly one assistant message is appended after it. The history after the ask is
  the history before it followed by these two messages, so its length has grown by
  exactly 2. The reply is the returned answer when the payload carries a non-empty
  one, and a fixed apology otherwise.
\<close>

theorem C3_history_grows_by_two:
  assumes "trim (input st) \<noteq> []" and "\<not> loading st"
  shows "(\<exists>request st1 reply.
            handleSend props t1 st = Await request st1 \<and>
            messages st1 = messages st @ [\<lparr>role = User, content = input st, timestamp = t1\<rparr>] \<and>
            loading st1 \<and>
            messages (afterSend cb t2 st1 outcome) =
              messages st @ [\<lparr>role = User, content = input st, timestamp = t1\<rparr>, reply] \<and>
            role reply = Assistant \<and> timestamp reply = t2 \<and>
            length (messages (afterSend cb t2 st1 outcome)) = length (messages st) + 2 \<and>
            \<not> loading (afterSend cb t2 st1 outcome)) \<and>
         content (last (messages (afterSend cb t2 st'
            (Responded \<lparr>status = s, bodyText = b, bodyJson = Value \<lparr>answer = Some (c # a)\<rparr>\<rparr>))))
           = c # a \<and>
         content (last (messages (afterSend cb t2 st'
            (Responded \<lparr>status = s, bodyText = b, bodyJson = Value \<lparr>answer = Some []\<rparr>\<rparr>))))
           = noAnswerReply \<and>
         content (last (messages (afterSend cb t2 st'
            (Responded \<lparr>status = s, bodyText = b, bodyJson = Value \<lparr>answer = None\<rparr>\<rparr>))))
           = noAnswerReply \<and>
         content (last (messages (afterSend cb t2 st'
            (Responded \<lparr>status = s, bodyText = b, bodyJson = Throws m\<rparr>))))
           = errorReply cb \<and>
         content (last (messages (afterSend cb t2 st' (Rejected m)))) = errorReply cb"
proof -
  let ?user = "\<lparr>role = User, content = input st, timestamp = t1\<rparr>"
  let ?st1 = "st\<lparr>messages := messages st @ [?user], input := [], loading := True\<rparr>"
  let ?request = "\<lparr>chat_document_id = documentId props, question = input st,
                   document_text = substring (documentText props) 0 3000,
                   analysis_summary = (case summary props of Some s \<Rightarrow> s | None \<Rightarrow> [])\<rparr>"
  have first: "handleSend props t1 st = Await ?request ?st1"
    using assms by (simp add: handleSend_def Let_def)
  have "\<exists>reply. messages (afterSend cb t2 ?st1 outcome) = messages ?st1 @ [reply] \<and>
          role reply = Assistant \<and> timestamp reply = t2 \<and> \<not> loading (afterSend cb t2 ?st1 outcome)"
    by (simp add: afterSend_def Let_def split: fetch_outcome.splits decoded.splits)
  then obtain reply where reply:
    "messages (afterSend cb t2 ?st1 outcome) = messages ?st1 @ [reply]"
    "role reply = Assistant" "timestamp reply = t2" "\<not> loading (afterSend cb t2 ?st1 outcome)"
    by blast
  have grown: "messages (afterSend cb t2 ?st1 outcome) = messages st @ [?user, reply]"
    using reply(1) by simp
  then have "length (messages (afterSend cb t2 ?st1 outcome)) = length (messages st) + 2"
    by simp
  with first grown reply have ask:
    "\<exists>request st1 reply.
        handleSend props t1 st = Await request st1 \<and>
        messages st1 = messages st @ [?user] \<and> loading st1 \<and>
        messages (afterSend cb t2 st1 outcome) = messages st @ [?user, reply] \<and>
        role reply = Assistant \<and> timestamp reply = t2 \<and>
        length (messages (afterSend cb t2 st1 outcome)) = length (messages st) + 2 \<and>
        \<not> loading (afterSend cb t2 st1 outcome)"
    by (intro exI [of _ ?request] exI [of _ ?st1] exI [of _ reply]) simp
  have contents:
    "content (last (messages (afterSend cb t2 st'
        (Responded \<lparr>status = s, bodyText = b, bodyJson = Value \<lparr>answer = Some (c # a)\<rparr>\<rparr>))))
       = c # a"
    "content (last (messages (afterSend cb t2 st'
        (Responded \<lparr>status = s, bodyText = b, bodyJson = Value \<lparr>answer = Some []\<rparr>\<rparr>))))
       = noAnswerReply"
    "content (last (messages (afterSend cb t2 st'
        (Responded \<lparr>status = s, bodyText = b, bodyJson = Value \<lparr>answer = None\<rparr>\<rparr>))))
       = noAnswerReply"
    "content (last (messages (afterSend cb t2 st'
        (Responded \<lparr>status = s, bodyText = b, bodyJson = Throws m\<rparr>))))
       = errorReply cb"
    "content (last (messages (afterSend cb t2 st' (Rejected m)))) = errorReply cb"
    by (simp_all add: afterSend_def Let_def)
  from ask contents show ?thesis
    by (intro conjI)
qed

text \<open>
  The theorem on a FloatingChatbot holding its greeting and a typed question: after an
  answered ask the history has three messages, and after a failed one as well.
\<close>

theorem C3_history_grows_by_two_witness:
  "trim (input typedQuestion) \<noteq> [] \<and> \<not> loading typedQuestion \<and>
   length (messages typedQuestion) = 1 \<and>
   (\<exists>request st1. handleSend chatProps 1 typedQuestion = Await request st1 \<and>
      length (messages (afterSend FloatingChatbot 2 st1 answered)) = 3) \<and>
   (\<exists>request st1. handleSend chatProps 1 typedQuestion = Await request st1 \<and>
      length (messages (afterSend FloatingChatbot 2 st1 (Rejected (js ''Failed to fetch'')))) = 3)"
proof -
  have accepted: "trim (input typedQuestion) \<noteq> []" "\<not> loading typedQuestion"
    by (simp_all add: typedQuestion_def initialChat_def trim_def isWhiteSpace_def js_def)
  have one: "length (messages typedQuestion) = 1"
    by (simp add: typedQuestion_def initialChat_def)
  obtain request st1 where answered_ask:
    "handleSend chatProps 1 typedQuestion = Await request st1"
    "length (messages (afterSend FloatingChatbot 2 st1 answered)) = length (messages typedQuestion) + 2"
    using C3_history_grows_by_two [OF accepted, of chatProps 1 FloatingChatbot 2 answered]
    by blast
  obtain request' st1' where failed_ask:
    "handleSend chatProps 1 typedQuestion = Await request' st1'"
    "length (messages (afterSend FloatingChatbot 2 st1' (Rejected (js ''Failed to fetch'')))) =
       length (messages typedQuestion) + 2"
    using C3_history_grows_by_two [OF accepted, of chatProps 1 FloatingChatbot 2
        "Rejected (js ''Failed to fetch'')"]
    by blast
  have "\<exists>request st1. handleSend chatProps 1 typedQuestion = Await request st1 \<and>
      length (messages (afterSend FloatingChatbot 2 st1 answered)) = 3"
    using answered_ask one by auto
  moreover have "\<exists>request st1. handleSend chatProps 1 typedQuestion = Await request st1 \<and>
      length (messages (afterSend FloatingChatbot 2 st1 (Rejected (js ''Failed to fetch'')))) = 3"
    using failed_ask one by auto
  ultimately show ?thesis
    using accepted one by blast
qed

text \<open>
  C8. For every accepted ask, the \<open>document_text\<close> field of the request is the first
  3000 code units of the document text, and the whole text when it has no more than
  3000: a prefix of fixed length that depends on nothing but the text, so every other
  ask with the same component properties sends the same field.
\<close>

theorem C8_document_text_prefix:
  assumes "trim (input st) \<noteq> []" and "\<not> loading st"
  shows "\<exists>request st1.
           handleSend props now st = Await request st1 \<and>
           document_text request = take 3000 (documentText props) \<and>
           length (document_text request) = min 3000 (length (documentText props)) \<and>
           (length (documentText props) \<le> 3000 \<longrightarrow> document_text request = documentText props) \<and>
           (\<forall>now' st' request' st1'.
               handleSend props now' st' = Await request' st1' \<longrightarrow>
               document_text request' = document_text request)"
  using assms by (auto simp: handleSend_def Let_def substring_prefix split: if_splits)

text \<open>The theorem on a document of 25 code units, sent whole.\<close>

theorem C8_document_text_prefix_witness:
  "trim (input typedQuestion) \<noteq> [] \<and> \<not> loading typedQuestion \<and>
   length (documentText chatProps) \<le> 3000 \<and>
   (\<exists>request st1. handleSend chatProps 1 typedQuestion = Await request st1 \<and>
      document_text request = js ''This Agreement is made on'')"
proof -
  have accepted: "trim (input typedQuestion) \<noteq> []" "\<not> loading typedQuestion"
    by (simp_all add: typedQuestion_def initialChat_def trim_def isWhiteSpace_def js_def)
  have short: "length (documentText chatProps) \<le> 3000" "documentText chatProps = js ''This Agreement is made on''"
    by (simp_all add: chatProps_def js_def)
  show ?thesis
    using accepted short C8_document_text_prefix [OF accepted, of chatProps 1]
    by auto
qed

section \<open>Rejected inputs\<close>

text \<open>
  C4, as stated, fails: a search on a query of three spaces, and an ask on a question
  of two spaces, do not fail. The handler returns with the state exactly as it was:
  no error is raised, recorded or logged.
\<close>

theorem C4_blank_input_returns_silently:
  "handleSearch (js ''doc-001'') (freshSearch\<lparr>searchQuery := js ''   ''\<rparr>) =
     Return (freshSearch\<lparr>searchQuery := js ''   ''\<rparr>) \<and>
   handleSend chatProps 5 ((initialChat DocumentChatbot 0)\<lparr>input := js ''  ''\<rparr>) =
     Return ((initialChat DocumentChatbot 0)\<lparr>input := js ''  ''\<rparr>)"
  by (simp add: handleSearch_def handleSend_def freshSearch_def initialChat_def trim_def
      isWhiteSpace_def js_def)

text \<open>
  C4, amended. Each of the three conditions is rejected by an early return that issues
  no request. Starting the analysis with no file selected records the message
  \<open>Please select a file\<close> and changes nothing else. A search on an empty or
  whitespace-only query, and an ask on a question that is empty after trimming or
  while an ask is pending, return with the state unchanged.
\<close>

theorem C4_rejected_before_network:
  "(selectedFile pst = None \<longrightarrow>
      handleUploadAndAnalyze srv pst = (pst\<lparr>error := js ''Please select a file''\<rparr>, [])) \<and>
   ((\<forall>c \<in> set (searchQuery sst). isWhiteSpace c) \<longrightarrow> handleSearch doc sst = Return sst) \<and>
   (trim (input cst) = [] \<or> loading cst \<longrightarrow> handleSend props now cst = Return cst)"
  by (simp add: handleUploadAndAnalyze_def handleSearch_def handleSend_def trim_empty_iff)

text \<open>
  The theorem on a page with no file, on a query of three spaces, and on a second ask
  made while the first is pending.
\<close>

theorem C4_rejected_before_network_witness:
  "selectedFile (idlePage\<lparr>selectedFile := None\<rparr>) = None \<and>
   snd (handleUploadAndAnalyze goodServer (idlePage\<lparr>selectedFile := None\<rparr>)) = [] \<and>
   isWhiteSpace 0x0020 \<and>
   searchQuery (freshSearch\<lparr>searchQuery := js ''   ''\<rparr>) = [0x0020, 0x0020, 0x0020] \<and>
   handleSearch (js ''doc-001'') (freshSearch\<lparr>searchQuery := js ''   ''\<rparr>) =
     Return (freshSearch\<lparr>searchQuery := js ''   ''\<rparr>) \<and>
   loading (typedQuestion\<lparr>loading := True\<rparr>) \<and>
   handleSend chatProps 1 (typedQuestion\<lparr>loading := True\<rparr>) =
     Return (typedQuestion\<lparr>loading := True\<rparr>)"
proof -
  have blank: "\<forall>c \<in> set (searchQuery (freshSearch\<lparr>searchQuery := js ''   ''\<rparr>)). isWhiteSpace c"
    by (simp add: js_def isWhiteSpace_def)
  have space: "isWhiteSpace 0x0020"
    by (simp add: isWhiteSpace_def)
  have spaces: "searchQuery (freshSearch\<lparr>searchQuery := js ''   ''\<rparr>) = [0x0020, 0x0020, 0x0020]"
    by (simp add: js_def)
  show ?thesis
    using blank space spaces
      C4_rejected_before_network [of "idlePage\<lparr>selectedFile := None\<rparr>" goodServer
        "freshSearch\<lparr>searchQuery := js ''   ''\<rparr>" "js ''doc-001''"
        "typedQuestion\<lparr>loading := True\<rparr>" chatProps 1]
    by simp
qed

end
